theory Spec2Isabelle
  imports Main "HOL-Library.FSet" "HOL-Library.AList"
begin

section \<open>Python built-ins used by the score checker\<close>

text \<open>
  The program is Python. A \<open>str\<close> is modelled as a \<open>string\<close>; a \<open>char\<close> stands for one
  code point in the range U+0000 .. U+00FF. In that range \<open>str.isspace\<close> holds for the
  twelve code points listed in \<open>isspace\<close>, and the only decimal digits are \<open>0\<close> .. \<open>9\<close>.
\<close>

definition isspace :: "char \<Rightarrow> bool" where
  "isspace c = (c \<in> set [CHR 0x09, CHR 0x0A, CHR 0x0B, CHR 0x0C, CHR 0x0D,
                          CHR 0x1C, CHR 0x1D, CHR 0x1E, CHR 0x1F, CHR 0x20,
                          CHR 0x85, CHR 0xA0])"

definition isdigit :: "char \<Rightarrow> bool" where
  "isdigit c = (c \<in> set ''0123456789'')"

definition digit_value :: "char \<Rightarrow> int" where
  "digit_value c = int (of_char c) - 48"

text \<open>\<open>s.strip()\<close>: whitespace removed at both ends.\<close>

definition strip :: "string \<Rightarrow> string" where
  "strip s = rev (dropWhile isspace (rev (dropWhile isspace s)))"

text \<open>
  \<open>s.split()\<close>: the maximal runs of non-whitespace characters, in order.
  \<open>split_from cur s\<close> carries the token being read.
\<close>

fun split_from :: "string \<Rightarrow> string \<Rightarrow> string list" where
  "split_from cur [] = (if cur = [] then [] else [cur])"
| "split_from cur (c # cs) =
     (if isspace c then (if cur = [] then split_from [] cs else cur # split_from [] cs)
      else split_from (cur @ [c]) cs)"

definition split_ws :: "string \<Rightarrow> string list" where
  "split_ws s = split_from [] s"

text \<open>
  \<open>s.split('\n')\<close>: the pieces between line feeds; the result always has at least one
  element (the empty text gives one empty piece).
\<close>

fun split_nl_from :: "string \<Rightarrow> string \<Rightarrow> string list" where
  "split_nl_from cur [] = [cur]"
| "split_nl_from cur (c # cs) =
     (if c = CHR 0x0A then cur # split_nl_from [] cs else split_nl_from (cur @ [c]) cs)"

definition split_nl :: "string \<Rightarrow> string list" where
  "split_nl s = split_nl_from [] s"

text \<open>
  \<open>int(s)\<close> on a string, base ten: surrounding whitespace is ignored, one optional sign,
  then decimal digits in which single underscores may separate digits. Anything else
  raises \<open>ValueError\<close>, here \<open>None\<close>. \<open>literal_ok prev s\<close> is the validating scan of the
  digits, \<open>prev\<close> being the character read before.

  CPython also raises \<open>ValueError\<close> when the literal has more digits than the
  interpreter's limit on integer string conversion: the check applies to more than
  640 digits, limit 0 switches it off, and the default limit is 4300. The limit is
  a setting of the interpreter, not of the program, so it is the parameter \<open>lim\<close> of
  \<open>py_int\<close> and of every function that calls it.
\<close>

fun literal_ok :: "char \<Rightarrow> string \<Rightarrow> bool" where
  "literal_ok prev [] = (prev \<noteq> CHR ''_'')"
| "literal_ok prev (c # cs) =
     (if c = CHR ''_'' then prev \<noteq> CHR ''_'' \<and> literal_ok c cs
      else isdigit c \<and> literal_ok c cs)"

fun split_sign :: "string \<Rightarrow> bool \<times> string" where
  "split_sign [] = (False, [])"
| "split_sign (c # cs) =
     (if c = CHR ''+'' then (False, cs)
      else if c = CHR ''-'' then (True, cs)
      else (False, c # cs))"

definition py_int :: "nat \<Rightarrow> string \<Rightarrow> int option" where
  "py_int lim s =
     (case split_sign (strip s) of
        (neg, body) \<Rightarrow>
          (case body of
             [] \<Rightarrow> None
           | c # cs \<Rightarrow>
               if c = CHR ''_'' \<or> \<not> literal_ok (CHR 0x00) body then None
               else
                 let ds = filter isdigit body
                 in if 640 < length ds \<and> 0 < lim \<and> lim < length ds then None
                    else
                      let v = foldl (\<lambda>a d. 10 * a + digit_value d) 0 ds
                      in Some (if neg then - v else v)))"

text \<open>
  \<open>xs[a:b]\<close>: a negative bound counts from the end, and both bounds are clamped to the
  list.
\<close>

definition py_slice :: "'a list \<Rightarrow> int \<Rightarrow> int \<Rightarrow> 'a list" where
  "py_slice xs a b =
     (let n = int (length xs);
          lo = (if a < 0 then max (n + a) 0 else min a n);
          hi = (if b < 0 then max (n + b) 0 else min b n)
      in take (nat (hi - lo)) (drop (nat lo) xs))"

section \<open>Data model\<close>

text \<open>
  \<open>Frame = Tuple[int, Optional[int]]\<close>. A painting is the dictionary with the keys
  \<open>id\<close>, \<open>orientation\<close> and \<open>tags\<close>. The painting mapping \<open>Dict[int, Painting]\<close> is an
  association list in insertion order, written with \<open>AList.update\<close> and read with
  \<open>map_of\<close>, so that its \<open>len\<close> is the length of the list.
\<close>

type_synonym frame = "int \<times> int option"

record painting =
  pid :: int
  orientation :: string
  tags :: "string list"

type_synonym paintings = "(int \<times> painting) list"

section \<open>Tag resolver and scorer\<close>

definition compute_frameglass_tags :: "frame \<Rightarrow> paintings \<Rightarrow> string fset" where
  "compute_frameglass_tags frame paintings =
     (case frame of
        (painting_id1, None) \<Rightarrow>
          (case map_of paintings painting_id1 of
             None \<Rightarrow> {||}
           | Some p1 \<Rightarrow> fset_of_list (tags p1))
      | (painting_id1, Some painting_id2) \<Rightarrow>
          (case (map_of paintings painting_id1, map_of paintings painting_id2) of
             (Some p1, Some p2) \<Rightarrow> fset_of_list (tags p1) |\<union>| fset_of_list (tags p2)
           | _ \<Rightarrow> {||}))"

definition compute_transition_score :: "string fset \<Rightarrow> string fset \<Rightarrow> int" where
  "compute_transition_score tags1 tags2 =
     (let common_tags = tags1 |\<inter>| tags2;
          only_in_tags1 = tags1 |-| tags2;
          only_in_tags2 = tags2 |-| tags1
      in min (int (fcard common_tags))
             (min (int (fcard only_in_tags1)) (int (fcard only_in_tags2))))"

text \<open>
  \<open>compute_global_score\<close> is declared \<open>Optional[int]\<close>. Its first loop appends the tag
  set of each frame, its second loop runs over \<open>range(len(frameglass_tags) - 1)\<close> and
  reads positions \<open>i\<close> and \<open>i + 1\<close>, both inside the list.
\<close>

definition compute_global_score :: "frame list \<Rightarrow> paintings \<Rightarrow> int option" where
  "compute_global_score frames paintings =
     (if length frames < 2 then Some 0
      else
        let frameglass_tags =
              foldl (\<lambda>acc frame. acc @ [compute_frameglass_tags frame paintings]) [] frames;
            total_score =
              foldl (\<lambda>total i. total +
                       compute_transition_score (frameglass_tags ! i) (frameglass_tags ! (i + 1)))
                    0 [0..<length frameglass_tags - 1]
        in Some total_score)"

section \<open>Messages\<close>

text \<open>
  Both parsers return a pair: the parsed value or \<open>None\<close>, and a list of message strings.
  With \<open>None\<close> the list holds exactly one \<open>ERROR\<close> message; otherwise it holds the
  \<open>WARNING\<close> messages collected so far. The model returns \<open>Inl\<close> of the error or \<open>Inr\<close>
  of the value with its warnings, and keeps of each message the values its text is
  formatted from:
  \<^item> \<open>EmptyFileError\<close>: "file is empty";
  \<^item> \<open>FormatError\<close>: "First line must be a valid number for frame count." and
    "First line of input file must be a number.";
  \<^item> \<open>DuplicateInSameFrameError n t\<close>: "ERROR on line n: Duplicate painting ID 't' used
    in the same frame.";
  \<^item> \<open>DuplicateAcrossFramesError n k\<close>: "ERROR on line n: Duplicate painting ID 'k' is
    used more than once.";
  \<^item> \<open>CountMismatchError d k\<close>: "The file declared d frames, but found k.";
  \<^item> \<open>InvalidPartsWarning n\<close>: "Line has invalid number of parts. Skipping.";
  \<^item> \<open>InvalidLineWarning n l\<close>: "Skipping invalid line: 'l'";
  \<^item> \<open>ShortLineWarning n\<close>: "Skipping invalid line n in input file.";
  \<^item> \<open>OrientationWarning t n\<close>: "Invalid orientation 't' on line n. Skipping.";
  \<^item> \<open>NotEnoughTagsWarning n k g\<close>: "Not enough tags on line n. Expected k, got g.";
  \<^item> \<open>TagCountWarning n\<close>: "Invalid number of tags on line n. Skipping.";
  \<^item> \<open>PaintingCountWarning d k\<close>: "Expected d paintings, but parsed k."
\<close>

datatype error =
    EmptyFileError
  | FormatError
  | DuplicateInSameFrameError nat string
  | DuplicateAcrossFramesError nat int
  | CountMismatchError int nat

datatype warning =
    InvalidPartsWarning nat
  | InvalidLineWarning nat string
  | ShortLineWarning nat
  | OrientationWarning string nat
  | NotEnoughTagsWarning nat int int
  | TagCountWarning nat
  | PaintingCountWarning int nat

section \<open>Arrangement parser: \<open>read_and_verify_output\<close>\<close>

text \<open>The local variables \<open>frames\<close>, \<open>used_ids\<close> and \<open>warnings\<close> of the parser.\<close>

record out_state =
  st_frames :: "frame list"
  st_used_ids :: "int set"
  st_warnings :: "warning list"

text \<open>
  The loop \<open>for part in parts\<close>. It stops at the first token that \<open>int\<close> rejects
  (\<open>ValueError\<close>, caught by the handler around the line) or whose value is in
  \<open>used_ids\<close> (the parser returns). The identifiers added before a \<open>ValueError\<close> stay
  in \<open>used_ids\<close>.
\<close>

datatype scan = Scanned "int set" | ValueError "int set" | Duplicate int

fun scan_parts :: "nat \<Rightarrow> string list \<Rightarrow> int set \<Rightarrow> scan" where
  "scan_parts lim [] used_ids = Scanned used_ids"
| "scan_parts lim (part # rest) used_ids =
     (case py_int lim part of
        None \<Rightarrow> ValueError used_ids
      | Some painting_id \<Rightarrow>
          if painting_id \<in> used_ids then Duplicate painting_id
          else scan_parts lim rest (insert painting_id used_ids))"

text \<open>The body of the loop over the lines, for the line at index \<open>i\<close>.\<close>

definition output_step :: "nat \<Rightarrow> nat \<Rightarrow> string \<Rightarrow> out_state \<Rightarrow> error + out_state" where
  "output_step lim i raw st =
     (let line = strip raw
      in if line = [] then Inr st
         else
           let line_number = i + 1;
               parts = split_ws line;
               skip = (\<lambda>used. Inr (st\<lparr>st_used_ids := used,
                          st_warnings := st_warnings st @ [InvalidLineWarning line_number line]\<rparr>))
           in if length parts = 2 \<and> parts ! 0 = parts ! 1
              then Inl (DuplicateInSameFrameError line_number (parts ! 0))
              else
                (case scan_parts lim parts (st_used_ids st) of
                   Duplicate painting_id \<Rightarrow>
                     Inl (DuplicateAcrossFramesError line_number painting_id)
                 | ValueError used \<Rightarrow> skip used
                 | Scanned used \<Rightarrow>
                     (case parts of
                        [p0] \<Rightarrow>
                          (case py_int lim p0 of
                             None \<Rightarrow> skip used
                           | Some a \<Rightarrow>
                               Inr (st\<lparr>st_frames := st_frames st @ [(a, None)],
                                       st_used_ids := used\<rparr>))
                      | [p0, p1] \<Rightarrow>
                          (case (py_int lim p0, py_int lim p1) of
                             (Some a, Some b) \<Rightarrow>
                               Inr (st\<lparr>st_frames := st_frames st @ [(a, Some b)],
                                       st_used_ids := used\<rparr>)
                           | _ \<Rightarrow> skip used)
                      | _ \<Rightarrow>
                          Inr (st\<lparr>st_used_ids := used,
                                  st_warnings := st_warnings st @
                                    [InvalidPartsWarning line_number]\<rparr>))))"

text \<open>The loop \<open>for i in range(1, len(lines))\<close>, left at the first \<open>return\<close>.\<close>

fun output_loop :: "nat \<Rightarrow> string list \<Rightarrow> nat list \<Rightarrow> out_state \<Rightarrow> error + out_state" where
  "output_loop lim lines [] st = Inr st"
| "output_loop lim lines (i # rest) st =
     (case output_step lim i (lines ! i) st of
        Inl e \<Rightarrow> Inl e
      | Inr st' \<Rightarrow> output_loop lim lines rest st')"

definition read_and_verify_output ::
  "nat \<Rightarrow> string \<Rightarrow> error + (frame list \<times> warning list)" where
  "read_and_verify_output lim content =
     (let lines = split_nl (strip content)
      in if lines = [] then Inl EmptyFileError
         else
           (case py_int lim (strip (lines ! 0)) of
              None \<Rightarrow> Inl FormatError
            | Some declared_frames \<Rightarrow>
                (case output_loop lim lines [1..<length lines]
                        \<lparr>st_frames = [], st_used_ids = {}, st_warnings = []\<rparr> of
                   Inl e \<Rightarrow> Inl e
                 | Inr st \<Rightarrow>
                     if declared_frames \<noteq> int (length (st_frames st))
                     then Inl (CountMismatchError declared_frames (length (st_frames st)))
                     else Inr (st_frames st, st_warnings st))))"

section \<open>Record parser: \<open>read_input_file\<close>\<close>

text \<open>
  The body of the loop for the line at index \<open>i\<close>, on the pair of the local variables
  \<open>paintings\<close> and \<open>warnings\<close>. Every exit of the body is a \<open>continue\<close>.
\<close>

definition input_step ::
  "nat \<Rightarrow> string list \<Rightarrow> paintings \<times> warning list \<Rightarrow> nat \<Rightarrow> paintings \<times> warning list" where
  "input_step lim lines st i =
     (case st of
        (paintings, warnings) \<Rightarrow>
          let line = strip (lines ! i)
          in if line = [] then st
             else
               let parts = split_ws line
               in if length parts < 2
                  then (paintings, warnings @ [ShortLineWarning (i + 1)])
                  else
                    let orient = parts ! 0
                    in if orient \<notin> set [''L'', ''P'']
                       then (paintings, warnings @ [OrientationWarning orient (i + 1)])
                       else
                         (case py_int lim (parts ! 1) of
                            None \<Rightarrow> (paintings, warnings @ [TagCountWarning (i + 1)])
                          | Some num_tags \<Rightarrow>
                              if int (length parts) < 2 + num_tags
                              then (paintings, warnings @
                                      [NotEnoughTagsWarning (i + 1) num_tags
                                         (int (length parts) - 2)])
                              else
                                let tgs = py_slice parts 2 (2 + num_tags);
                                    painting_id = int i - 1
                                in (AList.update painting_id
                                      \<lparr>pid = painting_id, orientation = orient, tags = tgs\<rparr>
                                      paintings,
                                    warnings)))"

text \<open>The loop is \<open>for i in range(1, min(len(lines), num_paintings + 1))\<close>.\<close>

definition read_input_file ::
  "nat \<Rightarrow> string \<Rightarrow> error + (paintings \<times> warning list)" where
  "read_input_file lim content =
     (let lines = split_nl (strip content)
      in if lines = [] then Inl EmptyFileError
         else
           (case py_int lim (strip (lines ! 0)) of
              None \<Rightarrow> Inl FormatError
            | Some num_paintings \<Rightarrow>
                (case foldl (input_step lim lines) ([], [])
                        [1..<nat (min (int (length lines)) (num_paintings + 1))] of
                   (paintings, warnings) \<Rightarrow>
                     if int (length paintings) \<noteq> num_paintings
                     then Inr (paintings, warnings @
                                 [PaintingCountWarning num_paintings (length paintings)])
                     else Inr (paintings, warnings))))"

section \<open>Orchestration: the core of \<open>check_files\<close>\<close>

text \<open>
  \<open>check_files\<close> from the two decoded texts on: the output file is validated, then the
  input file is read, then the score is computed. The three failure responses and the
  success response are the constructors of \<open>response\<close>; \<open>Success\<close> carries \<open>num_frames\<close>,
  \<open>num_paintings\<close>, \<open>global_score\<close> and \<open>warnings\<close>.
\<close>

datatype stage = Output | Input

datatype response =
    ValidationFailure stage error
  | ScoreFailure
  | Success nat nat int "warning list"

definition check_files :: "nat \<Rightarrow> string \<Rightarrow> string \<Rightarrow> response" where
  "check_files lim input_content output_content =
     (case read_and_verify_output lim output_content of
        Inl e \<Rightarrow> ValidationFailure Output e
      | Inr (frames, output_warnings) \<Rightarrow>
          (case read_input_file lim input_content of
             Inl e \<Rightarrow> ValidationFailure Input e
           | Inr (paintings, input_warnings) \<Rightarrow>
               (case compute_global_score frames paintings of
                  None \<Rightarrow> ScoreFailure
                | Some global_score \<Rightarrow>
                    Success (length frames) (length paintings) global_score
                      (output_warnings @ input_warnings))))"

section \<open>The second copy of the core: \<open>api/index.py\<close>\<close>

text \<open>
  The definitions above are the functions of \<open>api/check.py\<close>. \<open>api/index.py\<close> holds
  functions of the same five names; each is translated here on its own, with the
  prefix \<open>index_\<close>, together with the loops it is made of.
\<close>

fun index_scan_parts :: "nat \<Rightarrow> string list \<Rightarrow> int set \<Rightarrow> scan" where
  "index_scan_parts lim [] used_ids = Scanned used_ids"
| "index_scan_parts lim (part # rest) used_ids =
     (case py_int lim part of
        None \<Rightarrow> ValueError used_ids
      | Some painting_id \<Rightarrow>
          if painting_id \<in> used_ids then Duplicate painting_id
          else index_scan_parts lim rest (insert painting_id used_ids))"

definition index_output_step :: "nat \<Rightarrow> nat \<Rightarrow> string \<Rightarrow> out_state \<Rightarrow> error + out_state" where
  "index_output_step lim i raw st =
     (let line = strip raw
      in if line = [] then Inr st
         else
           let line_number = i + 1;
               parts = split_ws line;
               skip = (\<lambda>used. Inr (st\<lparr>st_used_ids := used,
                          st_warnings := st_warnings st @ [InvalidLineWarning line_number line]\<rparr>))
           in if length parts = 2 \<and> parts ! 0 = parts ! 1
              then Inl (DuplicateInSameFrameError line_number (parts ! 0))
              else
                (case index_scan_parts lim parts (st_used_ids st) of
                   Duplicate painting_id \<Rightarrow>
                     Inl (DuplicateAcrossFramesError line_number painting_id)
                 | ValueError used \<Rightarrow> skip used
                 | Scanned used \<Rightarrow>
                     (case parts of
                        [p0] \<Rightarrow>
                          (case py_int lim p0 of
                             None \<Rightarrow> skip used
                           | Some a \<Rightarrow>
                               Inr (st\<lparr>st_frames := st_frames st @ [(a, None)],
                                       st_used_ids := used\<rparr>))
                      | [p0, p1] \<Rightarrow>
                          (case (py_int lim p0, py_int lim p1) of
                             (Some a, Some b) \<Rightarrow>
                               Inr (st\<lparr>st_frames := st_frames st @ [(a, Some b)],
                                       st_used_ids := used\<rparr>)
                           | _ \<Rightarrow> skip used)
                      | _ \<Rightarrow>
                          Inr (st\<lparr>st_used_ids := used,
                                  st_warnings := st_warnings st @
                                    [InvalidPartsWarning line_number]\<rparr>))))"

fun index_output_loop :: "nat \<Rightarrow> string list \<Rightarrow> nat list \<Rightarrow> out_state \<Rightarrow> error + out_state" where
  "index_output_loop lim lines [] st = Inr st"
| "index_output_loop lim lines (i # rest) st =
     (case index_output_step lim i (lines ! i) st of
        Inl e \<Rightarrow> Inl e
      | Inr st' \<Rightarrow> index_output_loop lim lines rest st')"

definition index_read_and_verify_output ::
  "nat \<Rightarrow> string \<Rightarrow> error + (frame list \<times> warning list)" where
  "index_read_and_verify_output lim content =
     (let lines = split_nl (strip content)
      in if lines = [] then Inl EmptyFileError
         else
           (case py_int lim (strip (lines ! 0)) of
              None \<Rightarrow> Inl FormatError
            | Some declared_frames \<Rightarrow>
                (case index_output_loop lim lines [1..<length lines]
                        \<lparr>st_frames = [], st_used_ids = {}, st_warnings = []\<rparr> of
                   Inl e \<Rightarrow> Inl e
                 | Inr st \<Rightarrow>
                     if declared_frames \<noteq> int (length (st_frames st))
                     then Inl (CountMismatchError declared_frames (length (st_frames st)))
                     else Inr (st_frames st, st_warnings st))))"

definition index_input_step ::
  "nat \<Rightarrow> string list \<Rightarrow> paintings \<times> warning list \<Rightarrow> nat \<Rightarrow> paintings \<times> warning list" where
  "index_input_step lim lines st i =
     (case st of
        (paintings, warnings) \<Rightarrow>
          let line = strip (lines ! i)
          in if line = [] then st
             else
               let parts = split_ws line
               in if length parts < 2
                  then (paintings, warnings @ [ShortLineWarning (i + 1)])
                  else
                    let orient = parts ! 0
                    in if orient \<notin> set [''L'', ''P'']
                       then (paintings, warnings @ [OrientationWarning orient (i + 1)])
                       else
                         (case py_int lim (parts ! 1) of
                            None \<Rightarrow> (paintings, warnings @ [TagCountWarning (i + 1)])
                          | Some num_tags \<Rightarrow>
                              if int (length parts) < 2 + num_tags
                              then (paintings, warnings @
                                      [NotEnoughTagsWarning (i + 1) num_tags
                                         (int (length parts) - 2)])
                              else
                                let tgs = py_slice parts 2 (2 + num_tags);
                                    painting_id = int i - 1
                                in (AList.update painting_id
                                      \<lparr>pid = painting_id, orientation = orient, tags = tgs\<rparr>
                                      paintings,
                                    warnings)))"

definition index_read_input_file ::
  "nat \<Rightarrow> string \<Rightarrow> error + (paintings \<times> warning list)" where
  "index_read_input_file lim content =
     (let lines = split_nl (strip content)
      in if lines = [] then Inl EmptyFileError
         else
           (case py_int lim (strip (lines ! 0)) of
              None \<Rightarrow> Inl FormatError
            | Some num_paintings \<Rightarrow>
                (case foldl (index_input_step lim lines) ([], [])
                        [1..<nat (min (int (length lines)) (num_paintings + 1))] of
                   (paintings, warnings) \<Rightarrow>
                     if int (length paintings) \<noteq> num_paintings
                     then Inr (paintings, warnings @
                                 [PaintingCountWarning num_paintings (length paintings)])
                     else Inr (paintings, warnings))))"

definition index_compute_frameglass_tags :: "frame \<Rightarrow> paintings \<Rightarrow> string fset" where
  "index_compute_frameglass_tags frame paintings =
     (case frame of
        (painting_id1, None) \<Rightarrow>
          (case map_of paintings painting_id1 of
             None \<Rightarrow> {||}
           | Some p1 \<Rightarrow> fset_of_list (tags p1))
      | (painting_id1, Some painting_id2) \<Rightarrow>
          (case (map_of paintings painting_id1, map_of paintings painting_id2) of
             (Some p1, Some p2) \<Rightarrow> fset_of_list (tags p1) |\<union>| fset_of_list (tags p2)
           | _ \<Rightarrow> {||}))"

definition index_compute_transition_score :: "string fset \<Rightarrow> string fset \<Rightarrow> int" where
  "index_compute_transition_score tags1 tags2 =
     (let common_tags = tags1 |\<inter>| tags2;
          only_in_tags1 = tags1 |-| tags2;
          only_in_tags2 = tags2 |-| tags1
      in min (int (fcard common_tags))
             (min (int (fcard only_in_tags1)) (int (fcard only_in_tags2))))"

definition index_compute_global_score :: "frame list \<Rightarrow> paintings \<Rightarrow> int option" where
  "index_compute_global_score frames paintings =
     (if length frames < 2 then Some 0
      else
        let frameglass_tags =
              foldl (\<lambda>acc frame. acc @ [index_compute_frameglass_tags frame paintings]) [] frames;
            total_score =
              foldl (\<lambda>total i. total +
                       index_compute_transition_score (frameglass_tags ! i) (frameglass_tags ! (i + 1)))
                    0 [0..<length frameglass_tags - 1]
        in Some total_score)"

section \<open>Notions used in the statements\<close>

text \<open>\<open>lines[0].strip()\<close>: the line that holds the declared count.\<close>

definition count_line :: "string \<Rightarrow> string" where
  "count_line content = strip (split_nl (strip content) ! 0)"

text \<open>The values of \<open>frames\<close>, \<open>used_ids\<close> and \<open>warnings\<close> before the first line.\<close>

definition out_init :: out_state where
  "out_init = \<lparr>st_frames = [], st_used_ids = {}, st_warnings = []\<rparr>"

text \<open>
  The test \<open>len(parts) == 2 and parts[0] == parts[1]\<close> of the arrangement parser, on a
  raw line.
\<close>

definition same_frame_dup :: "string \<Rightarrow> bool" where
  "same_frame_dup raw =
     (let parts = split_ws (strip raw) in length parts = 2 \<and> parts ! 0 = parts ! 1)"

text \<open>
  The identifiers that the arrangement parser reads from the tokens of a line: the
  values of the tokens up to the first one that \<open>int\<close> rejects.
\<close>

fun scanned_ids :: "nat \<Rightarrow> string list \<Rightarrow> int list" where
  "scanned_ids lim [] = []"
| "scanned_ids lim (t # ts) =
     (case py_int lim t of None \<Rightarrow> [] | Some k \<Rightarrow> k # scanned_ids lim ts)"

definition line_ids :: "nat \<Rightarrow> string \<Rightarrow> int list" where
  "line_ids lim raw = scanned_ids lim (split_ws (strip raw))"

text \<open>The identifiers of a frame, in order.\<close>

fun frame_ids :: "frame \<Rightarrow> int list" where
  "frame_ids (a, None) = [a]"
| "frame_ids (a, Some b) = [a, b]"

text \<open>The painting that the record parser makes of the line at index \<open>i\<close> alone.\<close>

definition painting_of_line :: "nat \<Rightarrow> string list \<Rightarrow> nat \<Rightarrow> paintings" where
  "painting_of_line lim lines i = fst (input_step lim lines ([], []) i)"

section \<open>Facts about the built-ins and the loops\<close>

lemmas eval_defs = read_and_verify_output_def read_input_file_def output_step_def input_step_def
  split_nl_def split_ws_def strip_def isspace_def py_int_def isdigit_def digit_value_def
  py_slice_def count_line_def Let_def upt_rec

lemma split_nl_from_nonempty: "split_nl_from cur s \<noteq> []"
  by (induction s arbitrary: cur) simp_all

lemma split_nl_nonempty: "split_nl s \<noteq> []"
  by (simp add: split_nl_def split_nl_from_nonempty)

lemma tags_loop_map:
  "foldl (\<lambda>acc frame. acc @ [g frame]) acc0 fs = acc0 @ map g fs"
  by (induction fs arbitrary: acc0) simp_all

lemma score_loop_sum:
  "foldl (\<lambda>total i. total + h i) (a::int) [0..<n] = a + (\<Sum>i = 0..<n. h i)"
  by (induction n) simp_all

lemma output_step_error:
  assumes "output_step lim i raw st = Inl e"
  shows "(\<exists>t. e = DuplicateInSameFrameError (i + 1) t)
         \<or> (\<exists>k. e = DuplicateAcrossFramesError (i + 1) k)"
  using assms unfolding output_step_def Let_def
  by (auto split: if_splits scan.splits list.splits option.splits)

lemma output_loop_error:
  "output_loop lim lines idx st = Inl e \<Longrightarrow>
     (\<exists>n t. e = DuplicateInSameFrameError n t) \<or> (\<exists>n k. e = DuplicateAcrossFramesError n k)"
proof (induction idx arbitrary: st)
  case Nil
  then show ?case by simp
next
  case (Cons i rest)
  show ?case
  proof (cases "output_step lim i (lines ! i) st")
    case (Inl e')
    with Cons.prems have "e' = e" by simp
    with Inl output_step_error [of lim i "lines ! i" st e] show ?thesis by blast
  next
    case (Inr st')
    with Cons.prems have "output_loop lim lines rest st' = Inl e" by simp
    then show ?thesis by (rule Cons.IH)
  qed
qed

text \<open>
  The guard \<open>if not lines\<close> never fires, so each parser is a case distinction on the
  count line.
\<close>

lemma read_and_verify_output_unfold:
  "read_and_verify_output lim c =
     (case py_int lim (count_line c) of
        None \<Rightarrow> Inl FormatError
      | Some d \<Rightarrow>
          (case output_loop lim (split_nl (strip c)) [1..<length (split_nl (strip c))] out_init of
             Inl e \<Rightarrow> Inl e
           | Inr st \<Rightarrow>
               if d \<noteq> int (length (st_frames st))
               then Inl (CountMismatchError d (length (st_frames st)))
               else Inr (st_frames st, st_warnings st)))"
  unfolding read_and_verify_output_def count_line_def out_init_def Let_def
  by (simp add: split_nl_nonempty)

lemma read_input_file_unfold:
  "read_input_file lim c =
     (case py_int lim (count_line c) of
        None \<Rightarrow> Inl FormatError
      | Some n \<Rightarrow>
          (case foldl (input_step lim (split_nl (strip c))) ([], [])
                  [1..<nat (min (int (length (split_nl (strip c)))) (n + 1))] of
             (ps, ws) \<Rightarrow>
               if int (length ps) \<noteq> n
               then Inr (ps, ws @ [PaintingCountWarning n (length ps)])
               else Inr (ps, ws)))"
  by (simp add: read_input_file_def count_line_def split_nl_nonempty Let_def)

lemma output_format_error_iff:
  "read_and_verify_output lim c = Inl FormatError \<longleftrightarrow> py_int lim (count_line c) = None"
proof (cases "py_int lim (count_line c)")
  case None
  then show ?thesis by (simp add: read_and_verify_output_unfold)
next
  case (Some d)
  show ?thesis
  proof (cases "output_loop lim (split_nl (strip c)) [1..<length (split_nl (strip c))] out_init")
    case (Inl e)
    from output_loop_error [OF Inl] have "e \<noteq> FormatError" by auto
    with Some Inl show ?thesis by (simp add: read_and_verify_output_unfold)
  next
    case (Inr st)
    with Some show ?thesis by (simp add: read_and_verify_output_unfold)
  qed
qed

lemma input_format_error_iff:
  "read_input_file lim c = Inl FormatError \<longleftrightarrow> py_int lim (count_line c) = None"
  by (simp add: read_input_file_unfold split: option.splits prod.splits)

lemma output_negative_count:
  assumes "py_int lim (count_line c) = Some d" and "d < 0"
  shows "\<exists>e. read_and_verify_output lim c = Inl e \<and> e \<noteq> FormatError"
proof (cases "output_loop lim (split_nl (strip c)) [1..<length (split_nl (strip c))] out_init")
  case (Inl e)
  from output_loop_error [OF Inl] have "e \<noteq> FormatError" by auto
  with assms Inl show ?thesis by (simp add: read_and_verify_output_unfold)
next
  case (Inr st)
  from assms(2) have "d \<noteq> int (length (st_frames st))" by simp
  with assms Inr show ?thesis by (simp add: read_and_verify_output_unfold)
qed

lemma input_negative_count:
  assumes "py_int lim (count_line c) = Some d" and "d < 0"
  shows "read_input_file lim c = Inr ([], [PaintingCountWarning d 0])"
proof -
  from assms(2) have "nat (min (int (length (split_nl (strip c)))) (d + 1)) = 0" by simp
  with assms show ?thesis by (simp add: read_input_file_unfold)
qed

section \<open>Scorer\<close>

text \<open>
  Claim C1. For every frame sequence and painting mapping, \<open>compute_global_score\<close>
  returns the sum, over \<open>i\<close> from 0 to \<open>n - 2\<close>, of the transition score between the
  resolved tag sets of frame \<open>i\<close> and frame \<open>i + 1\<close>; with fewer than 2 frames it
  returns 0.
\<close>

theorem compute_global_score_sum:
  "compute_global_score fs ps =
     Some (\<Sum>i = 0..<length fs - 1.
             compute_transition_score (compute_frameglass_tags (fs ! i) ps)
                                      (compute_frameglass_tags (fs ! (i + 1)) ps))
   \<and> (length fs < 2 \<longrightarrow> compute_global_score fs ps = Some 0)"
proof (cases "length fs < 2")
  case True
  then have "length fs - 1 = 0" by simp
  with True show ?thesis by (simp add: compute_global_score_def)
next
  case False
  have "(\<Sum>i = 0..<length fs - 1.
           compute_transition_score (map (\<lambda>f. compute_frameglass_tags f ps) fs ! i)
                                    (map (\<lambda>f. compute_frameglass_tags f ps) fs ! (i + 1)))
      = (\<Sum>i = 0..<length fs - 1.
           compute_transition_score (compute_frameglass_tags (fs ! i) ps)
                                    (compute_frameglass_tags (fs ! (i + 1)) ps))"
    by (rule sum.cong) auto
  with False show ?thesis
    by (simp add: compute_global_score_def tags_loop_map score_loop_sum Let_def)
qed

theorem compute_global_score_sum_witness:
  "length [(0, None) :: frame] < 2
   \<and> compute_global_score [(0, None)] [] = Some 0
   \<and> compute_global_score [(0, None), (1, None), (2, None)]
        [(0, \<lparr>pid = 0, orientation = ''L'', tags = [''a'', ''b'', ''c'', ''d'']\<rparr>),
         (1, \<lparr>pid = 1, orientation = ''L'', tags = [''c'', ''d'', ''e'', ''f'']\<rparr>),
         (2, \<lparr>pid = 2, orientation = ''P'', tags = [''e'', ''g'', ''c'']\<rparr>)] = Some 3"
  using compute_global_score_sum [of "[(0, None)]" "[]"]
  by (simp add: compute_global_score_def compute_frameglass_tags_def
        compute_transition_score_def fcard.rep_eq upt_rec)

text \<open>
  Claim C2. For all finite tag sets \<open>A\<close> and \<open>B\<close>, \<open>compute_transition_score A B\<close> is the
  minimum of \<open>|A \<inter> B|\<close>, \<open>|A - B|\<close> and \<open>|B - A|\<close>; it is symmetric in \<open>A\<close> and \<open>B\<close>, at
  least 0 and at most \<open>min |A| |B|\<close>.
\<close>

theorem compute_transition_score_min:
  "compute_transition_score A B =
     min (int (fcard (A |\<inter>| B))) (min (int (fcard (A |-| B))) (int (fcard (B |-| A))))
   \<and> compute_transition_score A B = compute_transition_score B A
   \<and> 0 \<le> compute_transition_score A B
   \<and> compute_transition_score A B \<le> min (int (fcard A)) (int (fcard B))"
proof -
  have "fcard (A |\<inter>| B) \<le> fcard A" "fcard (A |\<inter>| B) \<le> fcard B"
    by (simp_all add: fcard_mono)
  then show ?thesis
    by (auto simp: compute_transition_score_def Let_def inf_commute min_def)
qed

section \<open>Tag resolver\<close>

text \<open>
  Claim C3. \<open>compute_frameglass_tags\<close> returns, for a single-painting frame whose
  identifier is absent from the mapping, the empty set; for a two-painting frame with
  either identifier absent, the empty set for the whole frame; otherwise the tag set
  of the painting, respectively the union of the tag sets of both paintings. It is a
  total function: no case raises.
\<close>

theorem compute_frameglass_tags_cases:
  "(map_of ps a = None \<longrightarrow> compute_frameglass_tags (a, None) ps = {||})
   \<and> (\<forall>p. map_of ps a = Some p \<longrightarrow>
          compute_frameglass_tags (a, None) ps = fset_of_list (tags p))
   \<and> (map_of ps a = None \<or> map_of ps b = None \<longrightarrow>
          compute_frameglass_tags (a, Some b) ps = {||})
   \<and> (\<forall>p q. map_of ps a = Some p \<and> map_of ps b = Some q \<longrightarrow>
          compute_frameglass_tags (a, Some b) ps =
            fset_of_list (tags p) |\<union>| fset_of_list (tags q))"
  by (auto simp: compute_frameglass_tags_def split: option.splits)

theorem compute_frameglass_tags_cases_witness:
  "compute_frameglass_tags (7, None)
     [(0, \<lparr>pid = 0, orientation = ''L'', tags = [''a'', ''b'']\<rparr>)] = {||}
   \<and> compute_frameglass_tags (0, None)
       [(0, \<lparr>pid = 0, orientation = ''L'', tags = [''a'', ''b'']\<rparr>)] = {|''a'', ''b''|}
   \<and> compute_frameglass_tags (0, Some 7)
       [(0, \<lparr>pid = 0, orientation = ''L'', tags = [''a'', ''b'']\<rparr>)] = {||}
   \<and> compute_frameglass_tags (0, Some 1)
        [(0, \<lparr>pid = 0, orientation = ''L'', tags = [''a'', ''b'']\<rparr>),
         (1, \<lparr>pid = 1, orientation = ''P'', tags = [''b'', ''c'']\<rparr>)] = {|''a'', ''b'', ''c''|}"
proof -
  let ?p0 = "\<lparr>pid = 0, orientation = ''L'', tags = [''a'', ''b'']\<rparr>"
  let ?p1 = "\<lparr>pid = 1, orientation = ''P'', tags = [''b'', ''c'']\<rparr>"
  have m7: "map_of [(0::int, ?p0)] 7 = None" by simp
  have m0: "map_of [(0::int, ?p0)] 0 = Some ?p0" by simp
  have n0: "map_of [(0::int, ?p0), (1, ?p1)] 0 = Some ?p0" by simp
  have n1: "map_of [(0::int, ?p0), (1, ?p1)] 1 = Some ?p1" by simp
  from compute_frameglass_tags_cases [of "[(0, ?p0)]" 7 0] m7
  have c1: "compute_frameglass_tags (7, None) [(0, ?p0)] = {||}" by blast
  from compute_frameglass_tags_cases [of "[(0, ?p0)]" 0 7] m0 m7
  have c2: "compute_frameglass_tags (0, None) [(0, ?p0)] = fset_of_list (tags ?p0)"
    and c3: "compute_frameglass_tags (0, Some 7) [(0, ?p0)] = {||}" by blast+
  from compute_frameglass_tags_cases [of "[(0, ?p0), (1, ?p1)]" 0 1] n0 n1
  have c4: "compute_frameglass_tags (0, Some 1) [(0, ?p0), (1, ?p1)]
              = fset_of_list (tags ?p0) |\<union>| fset_of_list (tags ?p1)" by blast
  from c1 c2 c3 c4 show ?thesis by auto
qed

section \<open>The count line\<close>

text \<open>
  Claim C5, as amended. For both parsers, parsing fails with the format error if and
  only if the count line does not parse as an integer under \<open>int\<close>. A negative count
  is accepted as a count: the record parser then succeeds with an empty mapping and
  the count warning, and the arrangement parser fails with another error than the
  format error.
\<close>

theorem first_line_format_error:
  "(read_and_verify_output lim c = Inl FormatError \<longleftrightarrow> py_int lim (count_line c) = None)
   \<and> (read_input_file lim c = Inl FormatError \<longleftrightarrow> py_int lim (count_line c) = None)
   \<and> (\<forall>d. py_int lim (count_line c) = Some d \<and> d < 0 \<longrightarrow>
          read_input_file lim c = Inr ([], [PaintingCountWarning d 0])
          \<and> (\<exists>e. read_and_verify_output lim c = Inl e \<and> e \<noteq> FormatError))"
  using output_format_error_iff input_format_error_iff output_negative_count input_negative_count
  by blast

theorem first_line_format_error_witness:
  "py_int 4300 (count_line ''-3'') = Some (- 3) \<and> (- 3 :: int) < 0
   \<and> read_input_file 4300 ''-3'' = Inr ([], [PaintingCountWarning (- 3) 0])
   \<and> py_int 4300 (count_line ''x\<newline>1'') = None
   \<and> read_and_verify_output 4300 ''x\<newline>1'' = Inl FormatError
   \<and> read_input_file 4300 ''x\<newline>1'' = Inl FormatError"
proof -
  have a: "py_int 4300 (count_line ''-3'') = Some (- 3)" by (simp add: eval_defs)
  have b: "py_int 4300 (count_line ''x\<newline>1'') = None" by (simp add: eval_defs)
  from first_line_format_error [of 4300 "''-3''"] a
  have c: "read_input_file 4300 ''-3'' = Inr ([], [PaintingCountWarning (- 3) 0])" by simp
  from first_line_format_error [of 4300 "''x\<newline>1''"] b
  have d: "read_and_verify_output 4300 ''x\<newline>1'' = Inl FormatError"
    "read_input_file 4300 ''x\<newline>1'' = Inl FormatError" by simp_all
  from a b c d show ?thesis by simp
qed

text \<open>
  The claim as first stated asks for a non-negative count and says that the count line
  \<open>-3\<close> makes the parse fail. With the default digit limit, the record parser accepts
  \<open>-3\<close>, and the arrangement parser reports a count mismatch, not a format error.
\<close>

theorem negative_count_counterexample:
  "count_line ''-3'' = ''-3''
   \<and> py_int 4300 ''-3'' = Some (- 3)
   \<and> read_input_file 4300 ''-3'' = Inr ([], [PaintingCountWarning (- 3) 0])
   \<and> read_and_verify_output 4300 ''-3'' = Inl (CountMismatchError (- 3) 0)"
  by (simp add: eval_defs)

section \<open>Record parser\<close>

lemma input_step_cases:
  "(fst (input_step lim lines (ps, ws) i) = ps \<and> painting_of_line lim lines i = [])
   \<or> (\<exists>p. pid p = int i - 1
          \<and> fst (input_step lim lines (ps, ws) i) = AList.update (int i - 1) p ps
          \<and> painting_of_line lim lines i = [(int i - 1, p)])"
  unfolding input_step_def painting_of_line_def Let_def
  by (auto split: option.splits)

lemma input_loop_map_of:
  "map_of (fst (foldl (input_step lim lines) ([], []) [1..<m])) k =
     (if 0 \<le> k \<and> nat k + 1 < m then map_of (painting_of_line lim lines (nat k + 1)) k else None)"
proof (induction m)
  case 0
  show ?case by simp
next
  case (Suc m)
  show ?case
  proof (cases "1 \<le> m")
    case False
    then show ?thesis by simp
  next
    case True
    obtain ps ws where st: "foldl (input_step lim lines) ([], []) [1..<m] = (ps, ws)"
      by (cases "foldl (input_step lim lines) ([], []) [1..<m]")
    from True have loop: "foldl (input_step lim lines) ([], []) [1..<Suc m]
                 = input_step lim lines (ps, ws) m"
      using st by simp
    from Suc.IH st have ih: "map_of ps k =
       (if 0 \<le> k \<and> nat k + 1 < m then map_of (painting_of_line lim lines (nat k + 1)) k else None)"
      by simp
    from input_step_cases [of lim lines ps ws m] show ?thesis
    proof
      assume a: "fst (input_step lim lines (ps, ws) m) = ps \<and> painting_of_line lim lines m = []"
      show ?thesis
      proof (cases "nat k + 1 = m")
        case True
        with a ih show ?thesis unfolding loop by simp
      next
        case False
        then have "(nat k + 1 < Suc m) = (nat k + 1 < m)" by arith
        with a ih show ?thesis unfolding loop by simp
      qed
    next
      assume "\<exists>p. pid p = int m - 1
          \<and> fst (input_step lim lines (ps, ws) m) = AList.update (int m - 1) p ps
          \<and> painting_of_line lim lines m = [(int m - 1, p)]"
      then obtain p where p: "fst (input_step lim lines (ps, ws) m) = AList.update (int m - 1) p ps"
        "painting_of_line lim lines m = [(int m - 1, p)]" by blast
      show ?thesis
      proof (cases "k = int m - 1")
        case eq: True
        with True have "nat k + 1 = m" "0 \<le> k" by simp_all
        with p eq show ?thesis unfolding loop by (simp add: update_conv')
      next
        case neq: False
        then have "nat k + 1 \<noteq> m \<or> k < 0" by (cases "0 \<le> k") auto
        then have "(0 \<le> k \<and> nat k + 1 < Suc m) = (0 \<le> k \<and> nat k + 1 < m)" by arith
        with p neq ih show ?thesis unfolding loop by (simp add: update_conv')
      qed
    qed
  qed
qed

lemma input_step_distinct:
  "distinct (map fst (fst st)) \<Longrightarrow> distinct (map fst (fst (input_step lim lines st i)))"
  using input_step_cases [of lim lines "fst st" "snd st" i]
  by (auto simp: distinct_update)

lemma input_loop_distinct:
  "distinct (map fst (fst st)) \<Longrightarrow>
     distinct (map fst (fst (foldl (input_step lim lines) st idx)))"
  by (induction idx arbitrary: st) (simp_all add: input_step_distinct)

lemma read_input_file_distinct_keys:
  "read_input_file lim c = Inr (ps, ws) \<Longrightarrow> distinct (map fst ps)"
  using input_loop_distinct [of "([], [])" lim "split_nl (strip c)"]
  by (auto simp: read_input_file_unfold split: option.splits prod.splits if_splits)
    (metis fst_conv)+

text \<open>
  Claim C6. For every input-file text, a painting is stored under the identifier \<open>k\<close>
  exactly when the line at index \<open>k + 1\<close> of the text (index 0 is the count line)
  lies within the declared count and parses, on its own, to that painting; the
  painting's own \<open>id\<close> is \<open>k\<close> too. The identifier is the position of the line minus 1,
  whatever happened to the lines before it: a skipped line leaves a gap in the
  identifiers and later paintings are not renumbered.
\<close>

theorem painting_id_is_line_index:
  assumes "py_int lim (count_line c) = Some n"
    and "read_input_file lim c = Inr (ps, ws)"
  shows "(map_of ps k = Some p \<longleftrightarrow>
           (\<exists>i. 1 \<le> i \<and> i < length (split_nl (strip c)) \<and> int i \<le> n \<and> k = int i - 1
               \<and> painting_of_line lim (split_nl (strip c)) i = [(k, p)]))
         \<and> (map_of ps k = Some p \<longrightarrow> pid p = k)"
proof -
  let ?lines = "split_nl (strip c)"
  let ?m = "nat (min (int (length ?lines)) (n + 1))"
  from assms have "ps = fst (foldl (input_step lim ?lines) ([], []) [1..<?m])"
    by (auto simp: read_input_file_unfold split: prod.splits if_splits)
  then have inv: "map_of ps k =
     (if 0 \<le> k \<and> nat k + 1 < ?m then map_of (painting_of_line lim ?lines (nat k + 1)) k else None)"
    by (simp only: input_loop_map_of)
  have line: "\<And>i. painting_of_line lim ?lines i = []
                \<or> (\<exists>q. pid q = int i - 1 \<and> painting_of_line lim ?lines i = [(int i - 1, q)])"
    using input_step_cases [of lim ?lines "[]" "[]"] by blast
  have fwd: "\<exists>i. 1 \<le> i \<and> i < length ?lines \<and> int i \<le> n \<and> k = int i - 1
               \<and> painting_of_line lim ?lines i = [(k, p)]" and id: "pid p = k"
    if some: "map_of ps k = Some p"
  proof -
    from some inv have k: "0 \<le> k" "nat k + 1 < ?m"
      and m: "map_of (painting_of_line lim ?lines (nat k + 1)) k = Some p"
      by (simp_all split: if_splits)
    from line [of "nat k + 1"] m k(1)
    have q: "painting_of_line lim ?lines (nat k + 1) = [(k, p)]" "pid p = k"
      by (auto split: if_splits)
    from k have "1 \<le> nat k + 1" "nat k + 1 < length ?lines" "int (nat k + 1) \<le> n"
      "k = int (nat k + 1) - 1" by auto
    with q(1) show "\<exists>i. 1 \<le> i \<and> i < length ?lines \<and> int i \<le> n \<and> k = int i - 1
               \<and> painting_of_line lim ?lines i = [(k, p)]" by blast
    from q(2) show "pid p = k" .
  qed
  have bwd: "map_of ps k = Some p"
    if "\<exists>i. 1 \<le> i \<and> i < length ?lines \<and> int i \<le> n \<and> k = int i - 1
               \<and> painting_of_line lim ?lines i = [(k, p)]"
  proof -
    from that obtain i where i: "1 \<le> i" "i < length ?lines" "int i \<le> n" "k = int i - 1"
      "painting_of_line lim ?lines i = [(k, p)]" by blast
    then have "0 \<le> k" "nat k + 1 = i" "nat k + 1 < ?m" by auto
    with inv i(5) show ?thesis by simp
  qed
  from fwd id bwd show ?thesis by blast
qed

theorem painting_id_is_line_index_witness:
  "py_int 4300 (count_line ''3\<newline>L 1 a\<newline>X\<newline>P 1 b'') = Some 3
   \<and> read_input_file 4300 ''3\<newline>L 1 a\<newline>X\<newline>P 1 b''
       = Inr ([(0, \<lparr>pid = 0, orientation = ''L'', tags = [''a'']\<rparr>),
               (2, \<lparr>pid = 2, orientation = ''P'', tags = [''b'']\<rparr>)],
              [ShortLineWarning 3, PaintingCountWarning 3 2])
   \<and> (\<exists>i. 1 \<le> i \<and> i < length (split_nl (strip ''3\<newline>L 1 a\<newline>X\<newline>P 1 b'')) \<and> int i \<le> 3
          \<and> (2::int) = int i - 1
          \<and> painting_of_line 4300 (split_nl (strip ''3\<newline>L 1 a\<newline>X\<newline>P 1 b'')) i
              = [(2, \<lparr>pid = 2, orientation = ''P'', tags = [''b'']\<rparr>)])"
proof -
  let ?c = "''3\<newline>L 1 a\<newline>X\<newline>P 1 b''"
  let ?p0 = "\<lparr>pid = 0, orientation = ''L'', tags = [''a'']\<rparr>"
  let ?p2 = "\<lparr>pid = 2, orientation = ''P'', tags = [''b'']\<rparr>"
  have a: "py_int 4300 (count_line ?c) = Some 3" by (simp add: eval_defs)
  have b: "read_input_file 4300 ?c
             = Inr ([(0, ?p0), (2, ?p2)], [ShortLineWarning 3, PaintingCountWarning 3 2])"
    by (simp add: eval_defs)
  have m: "map_of [(0::int, ?p0), (2, ?p2)] 2 = Some ?p2" by simp
  from painting_id_is_line_index [OF a b, of 2 ?p2] m
  have "\<exists>i. 1 \<le> i \<and> i < length (split_nl (strip ?c)) \<and> int i \<le> 3 \<and> (2::int) = int i - 1
          \<and> painting_of_line 4300 (split_nl (strip ?c)) i = [(2, ?p2)]" by blast
  with a b show ?thesis by blast
qed

section \<open>Count mismatch\<close>

text \<open>
  Claim C7. Count mismatch is handled asymmetrically. In the arrangement parser, when
  the loop over the lines ends with a number of accepted frames other than the declared
  count, the parse fails with the count-mismatch error and returns no frames; a
  successful parse always has as many frames as declared. In the record parser, once
  the count line parses, the parse succeeds with the mapping that the loop built; when
  the number of parsed paintings differs from the declared count, the only effect is
  one more warning at the end.
\<close>

theorem count_mismatch_asymmetry:
  "(\<forall>d st. py_int lim (count_line out) = Some d
        \<and> output_loop lim (split_nl (strip out)) [1..<length (split_nl (strip out))] out_init = Inr st
        \<and> d \<noteq> int (length (st_frames st)) \<longrightarrow>
        read_and_verify_output lim out = Inl (CountMismatchError d (length (st_frames st))))
   \<and> (\<forall>d fs ws. py_int lim (count_line out) = Some d
        \<and> read_and_verify_output lim out = Inr (fs, ws) \<longrightarrow> int (length fs) = d)
   \<and> (\<forall>d ps ws. py_int lim (count_line inp) = Some d
        \<and> foldl (input_step lim (split_nl (strip inp))) ([], [])
             [1..<nat (min (int (length (split_nl (strip inp)))) (d + 1))] = (ps, ws) \<longrightarrow>
        read_input_file lim inp =
          Inr (ps, if int (length ps) \<noteq> d then ws @ [PaintingCountWarning d (length ps)] else ws))"
proof (intro conjI allI impI)
  fix d st
  assume "py_int lim (count_line out) = Some d
        \<and> output_loop lim (split_nl (strip out)) [1..<length (split_nl (strip out))] out_init = Inr st
        \<and> d \<noteq> int (length (st_frames st))"
  then show "read_and_verify_output lim out = Inl (CountMismatchError d (length (st_frames st)))"
    by (simp add: read_and_verify_output_unfold)
next
  fix d fs ws
  assume a: "py_int lim (count_line out) = Some d \<and> read_and_verify_output lim out = Inr (fs, ws)"
  then show "int (length fs) = d"
    by (auto simp: read_and_verify_output_unfold split: sum.splits if_splits)
next
  fix d ps ws
  assume "py_int lim (count_line inp) = Some d
        \<and> foldl (input_step lim (split_nl (strip inp))) ([], [])
             [1..<nat (min (int (length (split_nl (strip inp)))) (d + 1))] = (ps, ws)"
  then show "read_input_file lim inp =
          Inr (ps, if int (length ps) \<noteq> d then ws @ [PaintingCountWarning d (length ps)] else ws)"
    by (simp add: read_input_file_unfold)
qed

theorem count_mismatch_asymmetry_witness:
  "py_int 4300 (count_line ''2\<newline>0'') = Some 2
   \<and> output_loop 4300 (split_nl (strip ''2\<newline>0'')) [1..<length (split_nl (strip ''2\<newline>0''))] out_init
       = Inr \<lparr>st_frames = [(0, None)], st_used_ids = {0}, st_warnings = []\<rparr>
   \<and> read_and_verify_output 4300 ''2\<newline>0'' = Inl (CountMismatchError 2 1)
   \<and> py_int 4300 (count_line ''3\<newline>L 1 a\<newline>P 1 b'') = Some 3
   \<and> read_input_file 4300 ''3\<newline>L 1 a\<newline>P 1 b''
       = Inr ([(0, \<lparr>pid = 0, orientation = ''L'', tags = [''a'']\<rparr>),
               (1, \<lparr>pid = 1, orientation = ''P'', tags = [''b'']\<rparr>)],
              [PaintingCountWarning 3 2])"
proof -
  let ?st = "\<lparr>st_frames = [(0, None)], st_used_ids = {0}, st_warnings = []\<rparr>"
  let ?ps = "[(0, \<lparr>pid = 0, orientation = ''L'', tags = [''a'']\<rparr>),
              (1, \<lparr>pid = 1, orientation = ''P'', tags = [''b'']\<rparr>)]"
  have a: "py_int 4300 (count_line ''2\<newline>0'') = Some 2"
    by (simp add: eval_defs)
  have b: "output_loop 4300 (split_nl (strip ''2\<newline>0''))
             [1..<length (split_nl (strip ''2\<newline>0''))] out_init = Inr ?st"
    by (simp add: eval_defs out_init_def)
  have c: "(2::int) \<noteq> int (length (st_frames ?st))" by simp
  have d: "py_int 4300 (count_line ''3\<newline>L 1 a\<newline>P 1 b'') = Some 3"
    by (simp add: eval_defs)
  have e: "foldl (input_step 4300 (split_nl (strip ''3\<newline>L 1 a\<newline>P 1 b''))) ([], [])
             [1..<nat (min (int (length (split_nl (strip ''3\<newline>L 1 a\<newline>P 1 b'')))) (3 + 1))]
           = (?ps, [])"
    by (simp add: eval_defs)
  from count_mismatch_asymmetry [of 4300 "''2\<newline>0''" "''3\<newline>L 1 a\<newline>P 1 b''",
         THEN conjunct1, THEN spec, THEN spec, THEN mp, OF conjI [OF a conjI [OF b c]]]
  have f: "read_and_verify_output 4300 ''2\<newline>0'' = Inl (CountMismatchError 2 (length (st_frames ?st)))"
    .
  from count_mismatch_asymmetry [of 4300 "''2\<newline>0''" "''3\<newline>L 1 a\<newline>P 1 b''",
         THEN conjunct2, THEN conjunct2, THEN spec, THEN spec, THEN spec, THEN mp,
         OF conjI [OF d e]]
  have g: "read_input_file 4300 ''3\<newline>L 1 a\<newline>P 1 b'' = Inr (?ps, [PaintingCountWarning 3 2])"
    by simp
  from a b d f g show ?thesis by simp
qed

section \<open>Orchestration\<close>

lemma compute_global_score_some: "\<exists>s. compute_global_score fs ps = Some s"
  by (simp add: compute_global_score_def Let_def)

text \<open>
  Claim C8. \<open>check_files\<close> validates the output file first: when the output parse
  fails, the response is the failure of the output stage whatever the input text is,
  also for an input text that the record parser rejects, so the input text plays no
  part in it. When both parses succeed, the warnings of the response are the warnings
  of the output file followed by the warnings of the input file.
\<close>

theorem check_files_output_first:
  "(\<forall>e. read_and_verify_output lim out = Inl e \<longrightarrow>
        (\<forall>inp. check_files lim inp out = ValidationFailure Output e))
   \<and> (\<forall>fs ow ps iw.
        read_and_verify_output lim out = Inr (fs, ow) \<and> read_input_file lim inp = Inr (ps, iw) \<longrightarrow>
        (\<exists>s. compute_global_score fs ps = Some s
            \<and> check_files lim inp out = Success (length fs) (length ps) s (ow @ iw)))"
proof (intro conjI allI impI)
  fix e inp'
  assume "read_and_verify_output lim out = Inl e"
  then show "check_files lim inp' out = ValidationFailure Output e"
    by (simp add: check_files_def)
next
  fix fs ow ps iw
  assume a: "read_and_verify_output lim out = Inr (fs, ow) \<and> read_input_file lim inp = Inr (ps, iw)"
  obtain s where "compute_global_score fs ps = Some s"
    using compute_global_score_some by blast
  with a show "\<exists>s. compute_global_score fs ps = Some s
            \<and> check_files lim inp out = Success (length fs) (length ps) s (ow @ iw)"
    by (simp add: check_files_def)
qed

theorem check_files_output_first_witness:
  "read_and_verify_output 4300 ''1\<newline>3 3'' = Inl (DuplicateInSameFrameError 2 ''3'')
   \<and> read_input_file 4300 ''x'' = Inl FormatError
   \<and> check_files 4300 ''x'' ''1\<newline>3 3'' = ValidationFailure Output (DuplicateInSameFrameError 2 ''3'')
   \<and> read_and_verify_output 4300 ''1\<newline>0 1\<newline>2 x'' = Inr ([(0, Some 1)], [InvalidLineWarning 3 ''2 x''])
   \<and> read_input_file 4300 ''3\<newline>P 2 red blue\<newline>L 1 red''
       = Inr ([(0, \<lparr>pid = 0, orientation = ''P'', tags = [''red'', ''blue'']\<rparr>),
               (1, \<lparr>pid = 1, orientation = ''L'', tags = [''red'']\<rparr>)],
              [PaintingCountWarning 3 2])
   \<and> check_files 4300 ''3\<newline>P 2 red blue\<newline>L 1 red'' ''1\<newline>0 1\<newline>2 x''
       = Success 1 2 0 [InvalidLineWarning 3 ''2 x'', PaintingCountWarning 3 2]"
proof -
  have a: "read_and_verify_output 4300 ''1\<newline>3 3'' = Inl (DuplicateInSameFrameError 2 ''3'')"
    by (simp add: eval_defs)
  have b: "read_input_file 4300 ''x'' = Inl FormatError"
    by (simp add: eval_defs)
  have c: "read_and_verify_output 4300 ''1\<newline>0 1\<newline>2 x''
             = Inr ([(0, Some 1)], [InvalidLineWarning 3 ''2 x''])"
    by (simp add: eval_defs)
  have d: "read_input_file 4300 ''3\<newline>P 2 red blue\<newline>L 1 red''
       = Inr ([(0, \<lparr>pid = 0, orientation = ''P'', tags = [''red'', ''blue'']\<rparr>),
               (1, \<lparr>pid = 1, orientation = ''L'', tags = [''red'']\<rparr>)],
              [PaintingCountWarning 3 2])"
    by (simp add: eval_defs)
  from check_files_output_first [of 4300 "''1\<newline>3 3''"] a
  have e: "check_files 4300 ''x'' ''1\<newline>3 3''
             = ValidationFailure Output (DuplicateInSameFrameError 2 ''3'')" by blast
  have g: "compute_global_score [(0, Some 1)]
             [(0, \<lparr>pid = 0, orientation = ''P'', tags = [''red'', ''blue'']\<rparr>),
              (1, \<lparr>pid = 1, orientation = ''L'', tags = [''red'']\<rparr>)] = Some 0"
    by (simp add: compute_global_score_def)
  from check_files_output_first
         [of 4300 "''1\<newline>0 1\<newline>2 x''" "''3\<newline>P 2 red blue\<newline>L 1 red''"] c d g
  have f: "check_files 4300 ''3\<newline>P 2 red blue\<newline>L 1 red'' ''1\<newline>0 1\<newline>2 x''
       = Success 1 2 0 [InvalidLineWarning 3 ''2 x'', PaintingCountWarning 3 2]"
    by auto
  from a b c d e f show ?thesis by blast
qed

section \<open>Arrangement parser\<close>

lemma nth_upt_tl: "map ((!) xs) [1..<length xs] = tl xs"
proof (cases xs)
  case Nil
  then show ?thesis by simp
next
  case (Cons x ys)
  have "map ((!) (x # ys)) [Suc 0..<Suc (length ys)] = map ((!) (x # ys)) (map Suc [0..<length ys])"
    by (simp only: map_Suc_upt)
  also have "\<dots> = map ((!) ys) [0..<length ys]" by simp
  also have "\<dots> = ys" by (rule map_nth)
  finally show ?thesis using Cons by simp
qed

lemma scan_parts_dup_iff:
  "(\<exists>k. scan_parts lim parts U = Duplicate k) \<longleftrightarrow>
     \<not> (distinct (scanned_ids lim parts) \<and> set (scanned_ids lim parts) \<inter> U = {})"
  by (induction parts arbitrary: U) (auto split: option.splits)

lemma scan_parts_used:
  "scan_parts lim parts U = Scanned U' \<or> scan_parts lim parts U = ValueError U' \<Longrightarrow>
     U' = U \<union> set (scanned_ids lim parts)"
  by (induction parts arbitrary: U) (auto split: option.splits if_splits)

lemma output_step_scan:
  assumes "\<not> same_frame_dup raw"
  shows "case scan_parts lim (split_ws (strip raw)) (st_used_ids st) of
           Duplicate k \<Rightarrow> output_step lim i raw st = Inl (DuplicateAcrossFramesError (i + 1) k)
         | Scanned U' \<Rightarrow> (\<exists>st'. output_step lim i raw st = Inr st' \<and> st_used_ids st' = U')
         | ValueError U' \<Rightarrow> (\<exists>st'. output_step lim i raw st = Inr st' \<and> st_used_ids st' = U')"
proof (cases "strip raw = []")
  case True
  then show ?thesis by (simp add: output_step_def split_ws_def)
next
  case False
  with assms show ?thesis
    unfolding output_step_def same_frame_dup_def Let_def
    by (auto split: scan.splits list.splits option.splits)
qed

lemma output_step_same_frame_dup:
  assumes "same_frame_dup raw"
  shows "\<exists>t. output_step lim i raw st = Inl (DuplicateInSameFrameError (i + 1) t)"
proof -
  from assms have "split_ws (strip raw) \<noteq> []"
    by (auto simp: same_frame_dup_def Let_def)
  then have "strip raw \<noteq> []" by (auto simp: split_ws_def)
  with assms show ?thesis
    by (simp add: output_step_def same_frame_dup_def Let_def)
qed

lemma output_step_fresh:
  assumes "\<not> same_frame_dup raw"
    and "distinct (line_ids lim raw)" and "set (line_ids lim raw) \<inter> st_used_ids st = {}"
  shows "\<exists>st'. output_step lim i raw st = Inr st'
              \<and> st_used_ids st' = st_used_ids st \<union> set (line_ids lim raw)"
proof (cases "scan_parts lim (split_ws (strip raw)) (st_used_ids st)")
  case (Duplicate k)
  with scan_parts_dup_iff [of lim "split_ws (strip raw)" "st_used_ids st"] assms(2,3)
  show ?thesis by (simp add: line_ids_def)
next
  case (Scanned U')
  with scan_parts_used [of lim "split_ws (strip raw)" "st_used_ids st" U']
  have "U' = st_used_ids st \<union> set (line_ids lim raw)" by (simp add: line_ids_def)
  with output_step_scan [OF assms(1), where lim=lim and st=st and i=i] Scanned show ?thesis by simp
next
  case (ValueError U')
  with scan_parts_used [of lim "split_ws (strip raw)" "st_used_ids st" U']
  have "U' = st_used_ids st \<union> set (line_ids lim raw)" by (simp add: line_ids_def)
  with output_step_scan [OF assms(1), where lim=lim and st=st and i=i] ValueError show ?thesis by simp
qed

lemma output_step_repeated:
  assumes "\<not> same_frame_dup raw"
    and "\<not> (distinct (line_ids lim raw) \<and> set (line_ids lim raw) \<inter> st_used_ids st = {})"
  shows "\<exists>k. output_step lim i raw st = Inl (DuplicateAcrossFramesError (i + 1) k)"
proof -
  from assms(2) scan_parts_dup_iff [of lim "split_ws (strip raw)" "st_used_ids st"]
  obtain k where "scan_parts lim (split_ws (strip raw)) (st_used_ids st) = Duplicate k"
    by (auto simp: line_ids_def)
  with output_step_scan [OF assms(1), where lim=lim and st=st and i=i] show ?thesis by simp
qed

lemma output_loop_dup_iff:
  "(\<exists>n k. output_loop lim lines idx st = Inl (DuplicateAcrossFramesError n k)) \<longleftrightarrow>
     \<not> (distinct (concat (map (line_ids lim)
            (takeWhile (\<lambda>l. \<not> same_frame_dup l) (map ((!) lines) idx))))
        \<and> set (concat (map (line_ids lim)
            (takeWhile (\<lambda>l. \<not> same_frame_dup l) (map ((!) lines) idx)))) \<inter> st_used_ids st = {})"
proof (induction idx arbitrary: st)
  case Nil
  show ?case by simp
next
  case (Cons i rest)
  let ?raw = "lines ! i"
  show ?case
  proof (cases "same_frame_dup ?raw")
    case True
    from output_step_same_frame_dup [OF True, where lim=lim and st=st and i=i] True show ?thesis by auto
  next
    case nd: False
    show ?thesis
    proof (cases "distinct (line_ids lim ?raw) \<and> set (line_ids lim ?raw) \<inter> st_used_ids st = {}")
      case False
      from output_step_repeated [OF nd False, where i=i] nd False show ?thesis by auto
    next
      case True
      then have d: "distinct (line_ids lim ?raw)"
        and f: "set (line_ids lim ?raw) \<inter> st_used_ids st = {}" by simp_all
      from output_step_fresh [OF nd d f, where i=i]
      obtain st' where st': "output_step lim i ?raw st = Inr st'"
        "st_used_ids st' = st_used_ids st \<union> set (line_ids lim ?raw)" by blast
      from Cons.IH [of st'] st' nd d f show ?thesis by (simp add: Int_Un_distrib Int_commute) blast
    qed
  qed
qed

text \<open>
  Claim C4, as amended. During output-file parsing, once the count line parses, the
  parse fails with the duplicate-across-frames error exactly when an identifier is read
  twice: when the identifiers read from the lines before the first line that repeats one
  token text twice, taken in reading order, are not all distinct. The identifiers
  read from a line are the values of its tokens up to the first token that is not an
  integer, whether the line then yields a frame or is skipped with a warning; so an
  identifier that stands only on a skipped line, or earlier on the same line, makes a
  later use of it fail.
\<close>

theorem duplicate_across_frames_iff:
  assumes "py_int lim (count_line c) = Some d"
  shows "(\<exists>n k. read_and_verify_output lim c = Inl (DuplicateAcrossFramesError n k)) \<longleftrightarrow>
           \<not> distinct (concat (map (line_ids lim)
                (takeWhile (\<lambda>l. \<not> same_frame_dup l) (tl (split_nl (strip c))))))"
proof -
  let ?lines = "split_nl (strip c)"
  have "(\<exists>n k. read_and_verify_output lim c = Inl (DuplicateAcrossFramesError n k)) \<longleftrightarrow>
        (\<exists>n k. output_loop lim ?lines [1..<length ?lines] out_init
                  = Inl (DuplicateAcrossFramesError n k))"
    using assms by (auto simp: read_and_verify_output_unfold split: sum.splits)
  also have "\<dots> \<longleftrightarrow> \<not> distinct (concat (map (line_ids lim)
                (takeWhile (\<lambda>l. \<not> same_frame_dup l) (tl ?lines))))"
    unfolding output_loop_dup_iff nth_upt_tl by (simp add: out_init_def)
  finally show ?thesis .
qed


theorem duplicate_across_frames_iff_witness:
  "py_int 4300 (count_line ''1\<newline>5 x\<newline>5'') = Some 1
   \<and> concat (map (line_ids 4300)
         (takeWhile (\<lambda>l. \<not> same_frame_dup l) (tl (split_nl (strip ''1\<newline>5 x\<newline>5''))))) = [5, 5]
   \<and> (\<exists>n k. read_and_verify_output 4300 ''1\<newline>5 x\<newline>5'' = Inl (DuplicateAcrossFramesError n k))"
proof -
  have a: "py_int 4300 (count_line ''1\<newline>5 x\<newline>5'') = Some 1"
    by (simp add: eval_defs)
  have b: "concat (map (line_ids 4300)
         (takeWhile (\<lambda>l. \<not> same_frame_dup l) (tl (split_nl (strip ''1\<newline>5 x\<newline>5''))))) = [5, 5]"
    by (simp add: eval_defs line_ids_def same_frame_dup_def)
  from duplicate_across_frames_iff [OF a] b
  have "\<exists>n k. read_and_verify_output 4300 ''1\<newline>5 x\<newline>5'' = Inl (DuplicateAcrossFramesError n k)"
    by simp
  with a b show ?thesis by blast
qed

text \<open>
  The claim as first stated says that identifiers on skipped lines do not make a later
  use fail. The line \<open>5 x\<close> is skipped with a warning, and so is the line \<open>1 2 3\<close>; a
  later line that uses 5, respectively 2, fails the parse all the same.
\<close>

theorem skipped_line_ids_counterexample:
  "read_and_verify_output 4300 ''0\<newline>5 x'' = Inr ([], [InvalidLineWarning 2 ''5 x''])
   \<and> read_and_verify_output 4300 ''1\<newline>5 x\<newline>5'' = Inl (DuplicateAcrossFramesError 3 5)
   \<and> read_and_verify_output 4300 ''0\<newline>1 2 3'' = Inr ([], [InvalidPartsWarning 2])
   \<and> read_and_verify_output 4300 ''1\<newline>1 2 3\<newline>2'' = Inl (DuplicateAcrossFramesError 3 2)"
  by (simp add: eval_defs)

lemma output_step_blank: "strip raw = [] \<Longrightarrow> output_step lim i raw st = Inr st"
  by (simp add: output_step_def)

lemma output_step_frame:
  assumes "strip raw \<noteq> []"
    and "map (py_int lim) (split_ws (strip raw)) = map Some (frame_ids f)"
    and "distinct (frame_ids f)"
    and "set (frame_ids f) \<inter> st_used_ids st = {}"
  shows "output_step lim i raw st =
           Inr (st\<lparr>st_frames := st_frames st @ [f],
                   st_used_ids := st_used_ids st \<union> set (frame_ids f)\<rparr>)"
proof (cases f)
  case (Pair a second)
  show ?thesis
  proof (cases second)
    case None
    with Pair assms(2) obtain p0 where "split_ws (strip raw) = [p0]" "py_int lim p0 = Some a"
      by (auto simp: map_eq_Cons_conv)
    with assms(1,4) Pair None show ?thesis
      by (simp add: output_step_def Let_def)
  next
    case (Some b)
    with Pair assms(2) obtain p0 p1 where p: "split_ws (strip raw) = [p0, p1]"
      "py_int lim p0 = Some a" "py_int lim p1 = Some b"
      by (auto simp: map_eq_Cons_conv)
    from assms(3) Pair Some have "a \<noteq> b" by simp
    with p have "p0 \<noteq> p1" by auto
    with p assms(1,4) Pair Some \<open>a \<noteq> b\<close> show ?thesis
      by (simp add: output_step_def Let_def insert_commute)
  qed
qed

lemma output_loop_frames:
  assumes "map (\<lambda>l. map (py_int lim) (split_ws (strip l)))
             (filter (\<lambda>l. strip l \<noteq> []) (map ((!) lines) idx))
           = map (map Some \<circ> frame_ids) fs"
    and "distinct (concat (map frame_ids fs))"
    and "set (concat (map frame_ids fs)) \<inter> st_used_ids st = {}"
  shows "output_loop lim lines idx st =
           Inr (st\<lparr>st_frames := st_frames st @ fs,
                   st_used_ids := st_used_ids st \<union> set (concat (map frame_ids fs))\<rparr>)"
  using assms
proof (induction idx arbitrary: st fs)
  case Nil
  then show ?case by simp
next
  case (Cons i rest)
  show ?case
  proof (cases "strip (lines ! i) = []")
    case True
    with Cons.prems(1) have "map (\<lambda>l. map (py_int lim) (split_ws (strip l)))
             (filter (\<lambda>l. strip l \<noteq> []) (map ((!) lines) rest))
           = map (map Some \<circ> frame_ids) fs" by simp
    from Cons.IH [OF this Cons.prems(2,3)] True show ?thesis
      by (simp add: output_step_blank)
  next
    case False
    with Cons.prems(1) obtain f fs' where fs: "fs = f # fs'"
      and hd: "map (py_int lim) (split_ws (strip (lines ! i))) = map Some (frame_ids f)"
      and tl: "map (\<lambda>l. map (py_int lim) (split_ws (strip l)))
             (filter (\<lambda>l. strip l \<noteq> []) (map ((!) lines) rest))
           = map (map Some \<circ> frame_ids) fs'"
      by (cases fs) auto
    let ?st' = "st\<lparr>st_frames := st_frames st @ [f],
                   st_used_ids := st_used_ids st \<union> set (frame_ids f)\<rparr>"
    from Cons.prems(2,3) fs have d: "distinct (frame_ids f)"
      and u: "set (frame_ids f) \<inter> st_used_ids st = {}"
      and d': "distinct (concat (map frame_ids fs'))"
      and u': "set (concat (map frame_ids fs')) \<inter> st_used_ids ?st' = {}"
      by auto
    from output_step_frame [OF False hd d u, of i]
    have step: "output_step lim i (lines ! i) st = Inr ?st'" .
    from Cons.IH [OF tl d' u'] step fs show ?thesis
      by (simp add: Un_assoc)
  qed
qed

text \<open>
  Claim C9. Round trip: take an output-file text whose count line declares \<open>N\<close> and
  whose other non-blank lines are exactly \<open>N\<close> well-formed lines, that is, their tokens
  parse to the identifiers of the frames \<open>fs\<close>, one line for each frame in order, each
  line with 1 or 2 identifiers, and no identifier occurs twice in the file. Then parsing
  succeeds and returns exactly the frames \<open>fs\<close>, in the order of the lines, with no
  warning.
\<close>

theorem output_round_trip:
  assumes "py_int lim (count_line c) = Some (int (length fs))"
    and "map (\<lambda>l. map (py_int lim) (split_ws (strip l)))
           (filter (\<lambda>l. strip l \<noteq> []) (tl (split_nl (strip c))))
         = map (map Some \<circ> frame_ids) fs"
    and "distinct (concat (map frame_ids fs))"
  shows "read_and_verify_output lim c = Inr (fs, [])"
proof -
  let ?lines = "split_nl (strip c)"
  from assms(2) have "map (\<lambda>l. map (py_int lim) (split_ws (strip l)))
             (filter (\<lambda>l. strip l \<noteq> []) (map ((!) ?lines) [1..<length ?lines]))
           = map (map Some \<circ> frame_ids) fs"
    by (simp only: nth_upt_tl)
  from output_loop_frames [OF this assms(3), of out_init]
  have "output_loop lim ?lines [1..<length ?lines] out_init =
          Inr (out_init\<lparr>st_frames := st_frames out_init @ fs,
                 st_used_ids := st_used_ids out_init \<union> set (concat (map frame_ids fs))\<rparr>)"
    by (simp add: out_init_def)
  with assms(1) show ?thesis
    by (simp add: read_and_verify_output_unfold out_init_def)
qed

theorem output_round_trip_witness:
  "py_int 4300 (count_line ''2\<newline>0 1\<newline>\<newline>7\<newline>'') = Some (int (length [(0, Some 1), (7, None) :: frame]))
   \<and> map (\<lambda>l. map (py_int 4300) (split_ws (strip l)))
           (filter (\<lambda>l. strip l \<noteq> []) (tl (split_nl (strip ''2\<newline>0 1\<newline>\<newline>7\<newline>''))))
         = map (map Some \<circ> frame_ids) [(0, Some 1), (7, None)]
   \<and> distinct (concat (map frame_ids [(0, Some 1), (7, None)]))
   \<and> read_and_verify_output 4300 ''2\<newline>0 1\<newline>\<newline>7\<newline>'' = Inr ([(0, Some 1), (7, None)], [])"
proof -
  let ?c = "''2\<newline>0 1\<newline>\<newline>7\<newline>''"
  let ?fs = "[(0, Some 1), (7, None)] :: frame list"
  have a: "py_int 4300 (count_line ?c) = Some (int (length ?fs))"
    by (simp add: eval_defs)
  have b: "map (\<lambda>l. map (py_int 4300) (split_ws (strip l)))
           (filter (\<lambda>l. strip l \<noteq> []) (tl (split_nl (strip ?c))))
         = map (map Some \<circ> frame_ids) ?fs"
    by (simp add: eval_defs)
  have c: "distinct (concat (map frame_ids ?fs))" by simp
  from output_round_trip [OF a b c] a b c show ?thesis by blast
qed

section \<open>The two copies of the core agree\<close>

lemma index_scan_parts_eq: "index_scan_parts lim parts U = scan_parts lim parts U"
  by (induction parts arbitrary: U) (simp_all split: option.splits)

lemma index_output_step_eq: "index_output_step lim i raw st = output_step lim i raw st"
  unfolding index_output_step_def output_step_def index_scan_parts_eq by (rule refl)

lemma index_output_loop_eq: "index_output_loop lim lines idx st = output_loop lim lines idx st"
  by (induction idx arbitrary: st) (simp_all add: index_output_step_eq split: sum.splits)

lemma index_input_step_eq: "index_input_step lim lines = input_step lim lines"
  unfolding index_input_step_def input_step_def by (rule refl)

lemma index_compute_frameglass_tags_eq:
  "index_compute_frameglass_tags f ps = compute_frameglass_tags f ps"
  unfolding index_compute_frameglass_tags_def compute_frameglass_tags_def by (rule refl)

lemma index_compute_transition_score_eq:
  "index_compute_transition_score A B = compute_transition_score A B"
  unfolding index_compute_transition_score_def compute_transition_score_def by (rule refl)

text \<open>
  Claim C10. Each of the five core functions of \<open>api/index.py\<close> returns, on every
  input, the result of the function of the same name in \<open>api/check.py\<close>.
\<close>

theorem index_functions_equal_check_functions:
  "index_read_and_verify_output lim c = read_and_verify_output lim c
   \<and> index_read_input_file lim c = read_input_file lim c
   \<and> index_compute_frameglass_tags f ps = compute_frameglass_tags f ps
   \<and> index_compute_transition_score A B = compute_transition_score A B
   \<and> index_compute_global_score fs ps = compute_global_score fs ps"
proof (intro conjI)
  show "index_read_and_verify_output lim c = read_and_verify_output lim c"
    unfolding index_read_and_verify_output_def read_and_verify_output_def index_output_loop_eq
    by (rule refl)
  show "index_read_input_file lim c = read_input_file lim c"
    unfolding index_read_input_file_def read_input_file_def index_input_step_eq
    by (rule refl)
  show "index_compute_frameglass_tags f ps = compute_frameglass_tags f ps"
    by (rule index_compute_frameglass_tags_eq)
  show "index_compute_transition_score A B = compute_transition_score A B"
    by (rule index_compute_transition_score_eq)
  show "index_compute_global_score fs ps = compute_global_score fs ps"
    unfolding index_compute_global_score_def compute_global_score_def
      index_compute_frameglass_tags_eq index_compute_transition_score_eq
    by (rule refl)
qed

end
